theory Spec2Isabelle
  imports Complex_Main "HOL-Library.Char_ord" "HOL-Library.List_Lexorder"
    "HOL-Library.Product_Lexorder"
begin

section \<open>Values of the notebook\<close>

text \<open>
  The notebook \<^verbatim>\<open>understanding-aircraft-accidents-brazil.py\<close> cleans four CSV tables
  and aggregates them. Its cells are Python values:
  \<^item> a Python \<^verbatim>\<open>str\<close> is a HOL \<open>string\<close>; a \<open>char\<close> stands for the code point of the
    same number, so the strings of the model are the Python strings over the code
    points 0..255 (the ASCII digits are the only decimal digits there);
  \<^item> a Python \<^verbatim>\<open>float\<close> is a \<open>pyfloat\<close>: a finite value, an infinity or NaN. A finite
    value is kept as the exact rational number the decimal text denotes; the rounding
    to binary64 that CPython applies afterwards is not part of the model;
  \<^item> a cell that \<^verbatim>\<open>pandas.read_csv\<close> hands to the notebook is a float (NaN for an empty
    field), a string or, in a column of whole numbers, an int;
  \<^item> a raised exception is the \<open>Inl\<close> branch of a sum.
\<close>

datatype pyfloat = Fin rat | PInf | NInf | NaN

datatype cell = CFloat pyfloat | CStr string | CInt int

datatype pyerror = ValueError | TypeError | AttributeError | IndexError

definition notna :: "pyfloat \<Rightarrow> bool" where
  "notna x = (x \<noteq> NaN)"

subsection \<open>Characters\<close>

text \<open>\<^verbatim>\<open>str.isspace\<close> and the regular expression class \<^verbatim>\<open>\s\<close> on the code points 0..255.\<close>

definition isspace :: "char \<Rightarrow> bool" where
  "isspace c = ((of_char c :: nat) \<in> set [9, 10, 11, 12, 13, 28, 29, 30, 31, 32, 133, 160])"

text \<open>The whitespace \<^verbatim>\<open>float()\<close> strips: the ASCII whitespace of C, and the two other
  whitespace code points below 256, which CPython first rewrites to a blank.\<close>

definition float_space :: "char \<Rightarrow> bool" where
  "float_space c = ((of_char c :: nat) \<in> set [9, 10, 11, 12, 13, 32, 133, 160])"

definition digit :: "char \<Rightarrow> bool" where
  "digit c = (c \<in> set ''0123456789'')"

definition between :: "char \<Rightarrow> char \<Rightarrow> char \<Rightarrow> bool" where
  "between lo hi c = (lo \<le> c \<and> c \<le> hi)"

definition lower :: "char \<Rightarrow> char" where
  "lower c = (case map_of (zip ''ABCDEFGHIJKLMNOPQRSTUVWXYZ'' ''abcdefghijklmnopqrstuvwxyz'') c of
                Some l \<Rightarrow> l | None \<Rightarrow> c)"

text \<open>\<^verbatim>\<open>int()\<close> of a run of ASCII digits.\<close>

definition digits_val :: "string \<Rightarrow> nat" where
  "digits_val s = foldl (\<lambda>n c. 10 * n + (of_char c - 48)) 0 s"

definition strip_with :: "(char \<Rightarrow> bool) \<Rightarrow> string \<Rightarrow> string" where
  "strip_with P s = rev (dropWhile P (rev (dropWhile P s)))"

text \<open>\<^verbatim>\<open>str.strip()\<close> with no argument.\<close>

definition strip :: "string \<Rightarrow> string" where
  "strip s = strip_with isspace s"

subsection \<open>\<^verbatim>\<open>float(str)\<close>\<close>

text \<open>
  CPython's \<^verbatim>\<open>float\<close> on a string: surrounding whitespace is dropped; an underscore may
  stand between two digits only; then an optional sign and either \<^verbatim>\<open>inf\<close>,
  \<^verbatim>\<open>infinity\<close>, \<^verbatim>\<open>nan\<close> (in any case) or digits with an optional point and an optional
  exponent. Anything else raises \<^verbatim>\<open>ValueError\<close>.
\<close>

fun underscores_ok :: "char option \<Rightarrow> string \<Rightarrow> bool" where
  "underscores_ok prev [] = (prev \<noteq> Some CHR ''_'')"
| "underscores_ok prev (c # cs) =
     (if c = CHR ''_''
      then (case prev of Some p \<Rightarrow> digit p | None \<Rightarrow> False) \<and> underscores_ok (Some c) cs
      else (if prev = Some CHR ''_'' then digit c else True) \<and> underscores_ok (Some c) cs)"

definition take_sign :: "string \<Rightarrow> bool \<times> string" where
  "take_sign s =
     (case s of
        [] \<Rightarrow> (False, [])
      | c # r \<Rightarrow> if c = CHR ''-'' then (True, r) else if c = CHR ''+'' then (False, r) else (False, s))"

definition exponent_part :: "string \<Rightarrow> (int \<times> string) option" where
  "exponent_part r =
     (case r of
        [] \<Rightarrow> Some (0, [])
      | c # r2 \<Rightarrow>
          if c = CHR ''e'' \<or> c = CHR ''E''
          then (let (neg, r3) = take_sign r2; d3 = takeWhile digit r3
                in if d3 = [] then None
                   else Some (if neg then - int (digits_val d3) else int (digits_val d3),
                              dropWhile digit r3))
          else Some (0, r))"

definition scale10 :: "rat \<Rightarrow> int \<Rightarrow> rat" where
  "scale10 m e = (if 0 \<le> e then m * 10 ^ nat e else m / 10 ^ nat (- e))"

definition decimal_literal :: "string \<Rightarrow> rat option" where
  "decimal_literal s =
     (let d1 = takeWhile digit s; r1 = dropWhile digit s;
          d2 = (case r1 of [] \<Rightarrow> [] | c # r \<Rightarrow> if c = CHR ''.'' then takeWhile digit r else []);
          r2 = (case r1 of [] \<Rightarrow> [] | c # r \<Rightarrow> if c = CHR ''.'' then dropWhile digit r else r1)
      in if d1 = [] \<and> d2 = [] then None
         else (case exponent_part r2 of
                 None \<Rightarrow> None
               | Some (e, r3) \<Rightarrow>
                   if r3 \<noteq> [] then None
                   else Some (scale10 (of_nat (digits_val (d1 @ d2)) / 10 ^ length d2) e)))"

definition float_literal :: "string \<Rightarrow> pyerror + pyfloat" where
  "float_literal s =
     (let (neg, r) = take_sign s; low = map lower r
      in if low = ''inf'' \<or> low = ''infinity'' then Inr (if neg then NInf else PInf)
         else if low = ''nan'' then Inr NaN
         else (case decimal_literal r of
                 None \<Rightarrow> Inl ValueError
               | Some v \<Rightarrow> Inr (Fin (if neg then - v else v))))"

definition py_float :: "string \<Rightarrow> pyerror + pyfloat" where
  "py_float s0 =
     (let s = strip_with float_space s0
      in if CHR ''_'' \<in> set s \<and> \<not> underscores_ok None s then Inl ValueError
         else float_literal (filter (\<lambda>c. c \<noteq> CHR ''_'') s))"

subsection \<open>\<^verbatim>\<open>locale.atof\<close> under the locale the notebook sets\<close>

text \<open>
  \<^verbatim>\<open>locale.setlocale(locale.LC_ALL, 'en_US.UTF-8')\<close>: the conventions of that locale, as
  \<^verbatim>\<open>locale.localeconv()\<close> returns them.
\<close>

record localeconv =
  thousands_sep :: string
  decimal_point :: string

definition en_US :: localeconv where
  "en_US = \<lparr>thousands_sep = '','', decimal_point = ''.''\<rparr>"

text \<open>\<^verbatim>\<open>str.replace(old, new)\<close>: the occurrences of \<open>old\<close>, left to right, without overlap.\<close>

function replace :: "string \<Rightarrow> string \<Rightarrow> string \<Rightarrow> string" where
  "replace old new [] = (if old = [] then new else [])"
| "replace old new (c # cs) =
     (if old = [] then new @ c # replace old new cs
      else if take (length old) (c # cs) = old
           then new @ replace old new (drop (length old) (c # cs))
           else c # replace old new cs)"
  by pat_completeness auto
termination
  by (relation "measure (\<lambda>(old, new, s). length s)") auto

text \<open>
  \<^verbatim>\<open>locale.delocalize\<close>: the grouping separator is removed, the decimal point becomes a
  dot. \<^verbatim>\<open>locale.atof\<close> is \<^verbatim>\<open>float(delocalize(string))\<close>; on a value that is not a string the
  call of \<^verbatim>\<open>replace\<close> raises \<^verbatim>\<open>AttributeError\<close>.
\<close>

definition delocalize :: "localeconv \<Rightarrow> string \<Rightarrow> string" where
  "delocalize conv s =
     (let ts = thousands_sep conv;
          s1 = (if ts \<noteq> [] then replace ts [] s else s);
          dd = decimal_point conv
      in if dd \<noteq> [] then replace dd ''.'' s1 else s1)"

definition atof :: "cell \<Rightarrow> pyerror + pyfloat" where
  "atof x = (case x of CStr s \<Rightarrow> py_float (delocalize en_US s) | _ \<Rightarrow> Inl AttributeError)"

text \<open>
  \<^verbatim>\<open>
  def clean_float(original: str) -> float:
      if isinstance(original, float):
          return original
      try:
          return locale.atof(original)
      except ValueError:
          return np.NaN
  \<close>
\<close>

definition clean_float :: "cell \<Rightarrow> pyerror + pyfloat" where
  "clean_float original =
     (case original of
        CFloat x \<Rightarrow> Inr x
      | _ \<Rightarrow> (case atof original of
                Inl ValueError \<Rightarrow> Inr NaN
              | Inl e \<Rightarrow> Inl e
              | Inr v \<Rightarrow> Inr v))"

section \<open>Cleanup of the occurrence table\<close>

subsection \<open>\<^verbatim>\<open>datetime.strptime\<close>\<close>

text \<open>
  A \<^verbatim>\<open>datetime\<close> without time zone, to the second.
\<close>

record datetime =
  year :: nat
  month :: nat
  day :: nat
  hour :: nat
  minute :: nat
  second :: nat

text \<open>The order of \<^verbatim>\<open>datetime\<close> values: lexicographic from the year down.\<close>

definition dt_key :: "datetime \<Rightarrow> nat \<times> nat \<times> nat \<times> nat \<times> nat \<times> nat" where
  "dt_key t = (year t, month t, day t, hour t, minute t, second t)"

definition dt_le :: "datetime \<Rightarrow> datetime \<Rightarrow> bool" where
  "dt_le a b = (dt_key a \<le> dt_key b)"

definition isleap :: "nat \<Rightarrow> bool" where
  "isleap y = (y mod 4 = 0 \<and> (y mod 100 \<noteq> 0 \<or> y mod 400 = 0))"

definition days_in_month :: "nat \<Rightarrow> nat \<Rightarrow> nat" where
  "days_in_month y m =
     (if m = 2 then (if isleap y then 29 else 28)
      else if m = 4 \<or> m = 6 \<or> m = 9 \<or> m = 11 then 30 else 31)"

text \<open>What the constructors \<^verbatim>\<open>date(y, m, d)\<close> and \<^verbatim>\<open>datetime(..., H, M, S)\<close> accept.\<close>

definition valid_date :: "nat \<Rightarrow> nat \<Rightarrow> nat \<Rightarrow> bool" where
  "valid_date y m d = (1 \<le> y \<and> y \<le> 9999 \<and> 1 \<le> m \<and> m \<le> 12 \<and> 1 \<le> d \<and> d \<le> days_in_month y m)"

definition valid_time :: "nat \<Rightarrow> nat \<Rightarrow> nat \<Rightarrow> bool" where
  "valid_time H M S = (H < 24 \<and> M < 60 \<and> S < 60)"

text \<open>
  \<^verbatim>\<open>_strptime\<close> turns the format into a regular expression and matches it at the start of
  the data. A format is kept here as the list of its items: the six directives the
  notebook's format uses, a literal character, and a run of whitespace (which becomes
  \<^verbatim>\<open>\s+\<close>). The expression of each directive is the one of \<^verbatim>\<open>_strptime.TimeRE\<close>:
  \<^verbatim>\<open>
  'd': r"(?P<d>3[0-1]|[1-2]\d|0[1-9]|[1-9]| [1-9])"
  'm': r"(?P<m>1[0-2]|0[1-9]|[1-9])"
  'Y': r"(?P<Y>\d\d\d\d)"
  'H': r"(?P<H>2[0-3]|[0-1]\d|\d)"
  'M': r"(?P<M>[0-5]\d|\d)"
  'S': r"(?P<S>6[0-1]|[0-5]\d|\d)"
  \<close>
  A matcher returns every way to match a prefix of the text, as (matched text, rest),
  in the order a backtracking engine tries them; the first complete one is the match.
\<close>

datatype fmt_item = Dir_d | Dir_m | Dir_Y | Dir_H | Dir_M | Dir_S | Lit char | Spaces

definition two :: "(char \<Rightarrow> bool) \<Rightarrow> (char \<Rightarrow> bool) \<Rightarrow> string \<Rightarrow> (string \<times> string) list" where
  "two P Q s = (case s of a # b # r \<Rightarrow> if P a \<and> Q b then [([a, b], r)] else [] | _ \<Rightarrow> [])"

definition one :: "(char \<Rightarrow> bool) \<Rightarrow> string \<Rightarrow> (string \<times> string) list" where
  "one P s = (case s of a # r \<Rightarrow> if P a then [([a], r)] else [] | [] \<Rightarrow> [])"

definition is_char :: "char \<Rightarrow> char \<Rightarrow> bool" where
  "is_char a c = (c = a)"

fun item_match :: "fmt_item \<Rightarrow> string \<Rightarrow> (string \<times> string) list" where
  "item_match Dir_d s =
     two (is_char CHR ''3'') (between CHR ''0'' CHR ''1'') s @
     two (between CHR ''1'' CHR ''2'') digit s @
     two (is_char CHR ''0'') (between CHR ''1'' CHR ''9'') s @
     one (between CHR ''1'' CHR ''9'') s @
     two (is_char CHR '' '') (between CHR ''1'' CHR ''9'') s"
| "item_match Dir_m s =
     two (is_char CHR ''1'') (between CHR ''0'' CHR ''2'') s @
     two (is_char CHR ''0'') (between CHR ''1'' CHR ''9'') s @
     one (between CHR ''1'' CHR ''9'') s"
| "item_match Dir_Y s =
     (case s of
        a # b # c # d # r \<Rightarrow>
          if digit a \<and> digit b \<and> digit c \<and> digit d then [([a, b, c, d], r)] else []
      | _ \<Rightarrow> [])"
| "item_match Dir_H s =
     two (is_char CHR ''2'') (between CHR ''0'' CHR ''3'') s @
     two (between CHR ''0'' CHR ''1'') digit s @
     one digit s"
| "item_match Dir_M s = two (between CHR ''0'' CHR ''5'') digit s @ one digit s"
| "item_match Dir_S s =
     two (is_char CHR ''6'') (between CHR ''0'' CHR ''1'') s @
     two (between CHR ''0'' CHR ''5'') digit s @
     one digit s"
| "item_match (Lit c) s = one (is_char c) s"
| "item_match Spaces s =
     map (\<lambda>n. (take n s, drop n s)) (rev [1 ..< Suc (length (takeWhile isspace s))])"

text \<open>An item is blind to a text \<open>t\<close> when it matches in front of \<open>t\<close> as it does without it.\<close>

definition blind :: "string \<Rightarrow> fmt_item \<Rightarrow> bool" where
  "blind t i = (\<forall>s. item_match i (s @ t) = map (\<lambda>(txt, r). (txt, r @ t)) (item_match i s))"

text \<open>The groups found so far are kept with the directive that matched them.\<close>

fun rmatch :: "fmt_item list \<Rightarrow> string \<Rightarrow> ((fmt_item \<times> string) list \<times> string) list" where
  "rmatch [] s = [([], s)]"
| "rmatch (i # is) s =
     concat (map (\<lambda>(txt, r). map (\<lambda>(found, r'). ((i, txt) # found, r')) (rmatch is r))
                 (item_match i s))"

text \<open>\<^verbatim>\<open>int(found_dict[key])\<close>, or the default of \<^verbatim>\<open>_strptime\<close> when the format has no such
  directive. \<^verbatim>\<open>int\<close> ignores the blank that \<^verbatim>\<open>%d\<close> may have matched.\<close>

definition group_int :: "nat \<Rightarrow> fmt_item \<Rightarrow> (fmt_item \<times> string) list \<Rightarrow> nat" where
  "group_int dflt key found =
     (case map_of found key of None \<Rightarrow> dflt | Some txt \<Rightarrow> digits_val (strip txt))"

text \<open>
  \<^verbatim>\<open>datetime.strptime(data_string, format)\<close>: no match, text left over after the match, a
  date that does not exist or a second above 59 raise \<^verbatim>\<open>ValueError\<close>.
\<close>

definition strptime :: "string \<Rightarrow> fmt_item list \<Rightarrow> pyerror + datetime" where
  "strptime data_string fmt =
     (case rmatch fmt data_string of
        [] \<Rightarrow> Inl ValueError
      | (found, rest) # _ \<Rightarrow>
          if rest \<noteq> [] then Inl ValueError
          else (let y = group_int 1900 Dir_Y found; m = group_int 1 Dir_m found;
                    d = group_int 1 Dir_d found; H = group_int 0 Dir_H found;
                    M = group_int 0 Dir_M found; S = group_int 0 Dir_S found
                in if \<not> valid_date y m d then Inl ValueError
                   else if \<not> valid_time H M S then Inl ValueError
                   else Inr \<lparr>year = y, month = m, day = d, hour = H, minute = M, second = S\<rparr>))"

text \<open>The formats \<^verbatim>\<open>'%d/%m/%Y %H:%M:%S'\<close>, \<^verbatim>\<open>'%d/%m/%Y'\<close> and \<^verbatim>\<open>'%H:%M:%S'\<close>.\<close>

definition fmt_date :: "fmt_item list" where
  "fmt_date = [Dir_d, Lit CHR ''/'', Dir_m, Lit CHR ''/'', Dir_Y]"

definition fmt_time :: "fmt_item list" where
  "fmt_time = [Dir_H, Lit CHR '':'', Dir_M, Lit CHR '':'', Dir_S]"

definition fmt_date_time :: "fmt_item list" where
  "fmt_date_time = fmt_date @ Spaces # fmt_time"

text \<open>
  The texts that the directives \<^verbatim>\<open>%d\<close>, \<^verbatim>\<open>%m\<close> and \<^verbatim>\<open>%Y\<close> read as a given day, month and
  year: two digits, or for a number below ten also the single digit (for the day also a
  blank and the digit), and four digits for the year. \<open>date_texts y m d\<close> are the ways to
  write the date in the form day/month/year.
\<close>

definition digit_char :: "nat \<Rightarrow> char" where
  "digit_char k = ''0123456789'' ! k"

definition pad2 :: "nat \<Rightarrow> string" where
  "pad2 n = [digit_char (n div 10), digit_char (n mod 10)]"

definition pad4 :: "nat \<Rightarrow> string" where
  "pad4 n = [digit_char (n div 1000), digit_char (n div 100 mod 10),
             digit_char (n div 10 mod 10), digit_char (n mod 10)]"

definition day_texts :: "nat \<Rightarrow> string list" where
  "day_texts d = pad2 d # (if d < 10 then [[digit_char d], [CHR '' '', digit_char d]] else [])"

definition month_texts :: "nat \<Rightarrow> string list" where
  "month_texts m = pad2 m # (if m < 10 then [[digit_char m]] else [])"

definition date_texts :: "nat \<Rightarrow> nat \<Rightarrow> nat \<Rightarrow> string list" where
  "date_texts y m d =
     concat (map (\<lambda>dt. map (\<lambda>mt. dt @ ''/'' @ mt @ ''/'' @ pad4 y) (month_texts m)) (day_texts d))"

subsection \<open>The column \<^verbatim>\<open>ocorrencia_data\<close>\<close>

text \<open>
  \<^verbatim>\<open>
  df_ocorrencia['ocorrencia_data'] = df_ocorrencia.apply(
      lambda row: datetime.strptime(
          row['ocorrencia_dia'] + ' ' +
          (row['ocorrencia_hora'] if isinstance(row['ocorrencia_hora'], str) else '00:00:00'),
          '%d/%m/%Y %H:%M:%S'),
      axis=1)
  \<close>
  \<open>ocorrencia_data_of\<close> is the lambda, on the two cells of a row it reads. Adding a
  string to a cell that is not a string raises \<^verbatim>\<open>TypeError\<close>.
\<close>

text \<open>\<^verbatim>\<open>isinstance(x, str)\<close>.\<close>

definition is_str :: "cell \<Rightarrow> bool" where
  "is_str x = (case x of CStr _ \<Rightarrow> True | _ \<Rightarrow> False)"

definition ocorrencia_data_of :: "cell \<Rightarrow> cell \<Rightarrow> pyerror + datetime" where
  "ocorrencia_data_of ocorrencia_dia ocorrencia_hora =
     (case ocorrencia_dia of
        CStr dia \<Rightarrow>
          strptime (dia @ '' '' @ (case ocorrencia_hora of CStr hora \<Rightarrow> hora | _ \<Rightarrow> ''00:00:00''))
                   fmt_date_time
      | _ \<Rightarrow> Inl TypeError)"

subsection \<open>The column \<^verbatim>\<open>ocorrencia_tipo_categoria\<close>\<close>

text \<open>\<^verbatim>\<open>str.split(sep)\<close> for a separator of one character: never an empty list.\<close>

fun split :: "char \<Rightarrow> string \<Rightarrow> string list" where
  "split sep [] = [[]]"
| "split sep (c # cs) =
     (if c = sep then [] # split sep cs
      else (case split sep cs of [] \<Rightarrow> [[c]] | w # ws \<Rightarrow> (c # w) # ws))"

text \<open>Indexing a list at 0: \<^verbatim>\<open>IndexError\<close> on the empty list.\<close>

definition item0 :: "'a list \<Rightarrow> pyerror + 'a" where
  "item0 xs = (case xs of [] \<Rightarrow> Inl IndexError | x # _ \<Rightarrow> Inr x)"

text \<open>
  \<^verbatim>\<open>lambda t: t.split('|')[0].strip()\<close>; a cell that is not a string has no \<^verbatim>\<open>split\<close>.
\<close>

definition ocorrencia_tipo_categoria :: "cell \<Rightarrow> pyerror + string" where
  "ocorrencia_tipo_categoria t =
     (case t of
        CStr s \<Rightarrow> (case item0 (split CHR ''|'' s) of Inl e \<Rightarrow> Inl e | Inr w \<Rightarrow> Inr (strip w))
      | _ \<Rightarrow> Inl AttributeError)"

section \<open>Exploration of the occurrence table\<close>

text \<open>
  A row of \<^verbatim>\<open>df_ocorrencia\<close> after the cleanup, with the columns the notebook reads. A
  missing value of a text or code column is \<open>None\<close>; a missing coordinate is \<open>NaN\<close>.
\<close>

record ocorrencia =
  codigo_ocorrencia :: "int option"
  ocorrencia_classificacao :: "string option"
  ocorrencia_data :: datetime
  ocorrencia_latitude :: pyfloat
  ocorrencia_longitude :: pyfloat
  ocorrencia_cidade :: "string option"

subsection \<open>The map of accidents\<close>

text \<open>
  \<^verbatim>\<open>
  accidents = df_ocorrencia[df_ocorrencia.ocorrencia_classificacao == 'ACIDENTE']
  accidents_2020 = accidents[accidents.ocorrencia_data >= datetime(2020,1,1)]
  m = folium.Map(location=[-15.24,-51.33], zoom_start=4)
  for occurence in accidents_2020[accidents_2020.ocorrencia_latitude.notna()].itertuples():
      folium.Marker(
          [occurence.ocorrencia_latitude, occurence.ocorrencia_longitude],
          popup=occurence.ocorrencia_cidade
      ).add_to(m)
  \<close>
  The map \<open>m\<close> is the list of the markers added to it, each the triple of latitude,
  longitude and label handed to \<^verbatim>\<open>folium.Marker\<close>. \<^verbatim>\<open>folium.Marker\<close> validates its
  location and raises \<^verbatim>\<open>ValueError\<close> ("Location values cannot contain NaNs") when a
  coordinate is NaN; the exception ends the loop and the cell.
\<close>

definition accidents :: "ocorrencia list \<Rightarrow> ocorrencia list" where
  "accidents df_ocorrencia =
     filter (\<lambda>r. ocorrencia_classificacao r = Some ''ACIDENTE'') df_ocorrencia"

definition datetime_2020_1_1 :: datetime where
  "datetime_2020_1_1 = \<lparr>year = 2020, month = 1, day = 1, hour = 0, minute = 0, second = 0\<rparr>"

definition accidents_2020 :: "ocorrencia list \<Rightarrow> ocorrencia list" where
  "accidents_2020 df_ocorrencia =
     filter (\<lambda>r. dt_le datetime_2020_1_1 (ocorrencia_data r)) (accidents df_ocorrencia)"

type_synonym marker = "pyfloat \<times> pyfloat \<times> string option"

definition folium_Marker :: "pyfloat \<Rightarrow> pyfloat \<Rightarrow> string option \<Rightarrow> pyerror + marker" where
  "folium_Marker latitude longitude popup =
     (if latitude = NaN \<or> longitude = NaN then Inl ValueError
      else Inr (latitude, longitude, popup))"

fun add_markers :: "marker list \<Rightarrow> ocorrencia list \<Rightarrow> pyerror + marker list" where
  "add_markers m [] = Inr m"
| "add_markers m (occurence # rest) =
     (case folium_Marker (ocorrencia_latitude occurence) (ocorrencia_longitude occurence)
             (ocorrencia_cidade occurence) of
        Inl e \<Rightarrow> Inl e
      | Inr marker \<Rightarrow> add_markers (m @ [marker]) rest)"

definition accident_map :: "ocorrencia list \<Rightarrow> pyerror + marker list" where
  "accident_map df_ocorrencia =
     add_markers [] (filter (\<lambda>r. notna (ocorrencia_latitude r)) (accidents_2020 df_ocorrencia))"

subsection \<open>Occurrences per month\<close>

text \<open>
  \<^verbatim>\<open>
  occurencies_in_time = df_ocorrencia.groupby(
      pd.Grouper(key='ocorrencia_data', axis=0, freq='M')).codigo_ocorrencia.count()
  \<close>
  \<^verbatim>\<open>freq='M'\<close> is the month end frequency of pandas: the rows are put into one bin per
  calendar month, from the month of the smallest timestamp to the month of the largest
  one, and each bin carries the last day of its month as its label. \<^verbatim>\<open>count()\<close> counts
  the values of \<^verbatim>\<open>codigo_ocorrencia\<close> of the bin that are not missing; a bin without
  rows counts 0. A table without rows gives an empty result.

  pandas keeps the timestamps of a column as \<^verbatim>\<open>datetime64[ns]\<close> only when each of them lies
  between \<^verbatim>\<open>Timestamp.min\<close> (1677-09-21 00:12:43.145224193) and \<^verbatim>\<open>Timestamp.max\<close>
  (2262-04-11 23:47:16.854775807). With one timestamp outside, the column holds Python
  objects, and grouping it with \<^verbatim>\<open>pd.Grouper(freq='M')\<close> raises \<^verbatim>\<open>TypeError\<close>.
\<close>












subsection \<open>Occurrences per month and class\<close>




section \<open>Descriptive statistics\<close>

text \<open>
  \<^verbatim>\<open>df_aeronave.aeronave_assentos.describe()\<close> on a numeric column, whose missing values
  are \<open>None\<close>. pandas leaves the missing values out; the standard deviation is the one of
  a sample (the sum of squares is divided by the count minus one), which is missing for
  fewer than two values; a percentile is interpolated linearly between the two nearest
  values in sorted order. \<open>Sqrt v\<close> stands for the square root of \<open>v\<close>, which pandas
  computes in floating point.
\<close>

datatype surd = Sqrt rat

record description =
  count :: nat
  mean :: "rat option"
  std :: "surd option"
  minimum :: "rat option"
  pct25 :: "rat option"
  pct50 :: "rat option"
  pct75 :: "rat option"
  maximum :: "rat option"

definition quantile :: "rat list \<Rightarrow> rat \<Rightarrow> rat option" where
  "quantile xs q =
     (let s = sort xs; n = length s
      in if n = 0 then None
         else (let pos = q * of_nat (n - 1); i = nat \<lfloor>pos\<rfloor>; frac = pos - of_int \<lfloor>pos\<rfloor>
               in Some (if Suc i < n then s ! i + (s ! Suc i - s ! i) * frac else s ! i)))"

definition series_mean :: "rat list \<Rightarrow> rat option" where
  "series_mean xs = (if xs = [] then None else Some (sum_list xs / of_nat (length xs)))"

definition series_std :: "rat list \<Rightarrow> surd option" where
  "series_std xs =
     (if length xs \<le> 1 then None
      else (let mu = sum_list xs / of_nat (length xs)
            in Some (Sqrt (sum_list (map (\<lambda>x. (x - mu) ^ 2) xs) / of_nat (length xs - 1)))))"

text \<open>The values of a column that are not missing, in the order of the rows.\<close>

definition dropna :: "'a option list \<Rightarrow> 'a list" where
  "dropna col = concat (map (\<lambda>x. case x of None \<Rightarrow> [] | Some v \<Rightarrow> [v]) col)"

definition describe :: "rat option list \<Rightarrow> description" where
  "describe col =
     (let xs = dropna col
      in \<lparr>count = length xs, mean = series_mean xs, std = series_std xs,
          minimum = quantile xs 0, pct25 = quantile xs (1 / 4), pct50 = quantile xs (1 / 2),
          pct75 = quantile xs (3 / 4), maximum = quantile xs 1\<rparr>)"

section \<open>Properties of the cleanup\<close>

subsection \<open>\<^verbatim>\<open>clean_float\<close>\<close>

lemmas float_eval_defs =
  clean_float_def atof_def delocalize_def en_US_def py_float_def strip_with_def
  float_space_def float_literal_def take_sign_def lower_def decimal_literal_def digit_def
  exponent_part_def scale10_def digits_val_def

lemma py_float_error: "py_float s = Inl e \<Longrightarrow> e = ValueError"
  by (auto simp: py_float_def float_literal_def Let_def split: if_splits prod.splits option.splits)

lemma atof_str_error: "atof (CStr s) = Inl e \<Longrightarrow> e = ValueError"
  by (simp add: atof_def py_float_error)

lemma clean_float_str_case:
  "clean_float (CStr s) = (case atof (CStr s) of Inl e \<Rightarrow> Inr NaN | Inr v \<Rightarrow> Inr v)"
  by (auto simp: clean_float_def split: sum.splits pyerror.splits dest: atof_str_error)

lemma clean_float_comma: "clean_float (CStr ''-15,24'') = Inr (Fin (- 1524))"
  by (simp add: float_eval_defs)

lemma clean_float_dot: "clean_float (CStr ''-15.24'') = Inr (Fin (- (1524 / 100)))"
  by (simp add: float_eval_defs)

text \<open>
  Claim C5, as the code has it. Under the locale the notebook sets (\<^verbatim>\<open>en_US.UTF-8\<close>) the
  comma is the grouping separator and the dot is the decimal point: \<^verbatim>\<open>clean_float\<close>
  removes the comma of \<^verbatim>\<open>"-15,24"\<close> and returns -1524, and it returns -15.24 for
  \<^verbatim>\<open>"-15.24"\<close>. On every string it returns a float and never raises; when
  \<^verbatim>\<open>locale.atof\<close> cannot parse the string the float is the missing marker NaN.
\<close>

theorem clean_float_string:
  "clean_float (CStr ''-15,24'') = Inr (Fin (- 1524)) \<and>
   clean_float (CStr ''-15.24'') = Inr (Fin (- (1524 / 100))) \<and>
   (\<exists>v. clean_float (CStr s) = Inr v) \<and>
   (atof (CStr s) = Inl e \<longrightarrow> clean_float (CStr s) = Inr NaN)"
  using clean_float_comma clean_float_dot clean_float_str_case [of s]
  by (auto split: sum.splits)

theorem clean_float_string_witness:
  "atof (CStr ''sem dados'') = Inl ValueError \<and> clean_float (CStr ''sem dados'') = Inr NaN"
proof -
  have "atof (CStr ''sem dados'') = Inl ValueError"
    by (simp add: float_eval_defs)
  with clean_float_string [of "''sem dados''" ValueError] show ?thesis by simp
qed

text \<open>
  Claim C5 as the specification states it, refuted: the result for \<^verbatim>\<open>"-15,24"\<close> is not
  -15.24.
\<close>

theorem clean_float_comma_counterexample:
  "clean_float (CStr ''-15,24'') \<noteq> Inr (Fin (- (1524 / 100)))"
  by (simp add: float_eval_defs)

text \<open>
  Claim C9, as the code has it: a cell that is already a float (NaN and the infinities
  included) is returned unchanged.
\<close>

theorem clean_float_float: "clean_float (CFloat x) = Inr x"
  by (simp add: clean_float_def)

theorem clean_float_float_witness:
  "clean_float (CFloat (Fin (- (1524 / 100)))) = Inr (Fin (- (1524 / 100)))"
  using clean_float_float [of "Fin (- (1524 / 100))"] by simp

text \<open>
  Claim C9 as the specification states it, refuted: a cell that is a whole number is a
  numeric value too, and \<^verbatim>\<open>clean_float\<close> does not return it: the test is for \<^verbatim>\<open>float\<close>
  only, and \<^verbatim>\<open>locale.atof\<close> raises \<^verbatim>\<open>AttributeError\<close> on an \<^verbatim>\<open>int\<close>.
\<close>

theorem clean_float_int_counterexample: "clean_float (CInt 15) = Inl AttributeError"
  by (simp add: clean_float_def atof_def)

subsection \<open>\<^verbatim>\<open>ocorrencia_tipo_categoria\<close>\<close>

lemma split_hd: "split sep s \<noteq> [] \<and> hd (split sep s) = takeWhile (\<lambda>c. c \<noteq> sep) s"
  by (induction s) (auto split: list.splits)

lemma item0_split: "item0 (split sep s) = Inr (takeWhile (\<lambda>c. c \<noteq> sep) s)"
  using split_hd [of sep s] by (cases "split sep s") (auto simp: item0_def)

lemma strip_with_nonempty: "strip_with P w \<noteq> [] \<longleftrightarrow> (\<exists>c \<in> set w. \<not> P c)"
proof
  assume "strip_with P w \<noteq> []"
  then show "\<exists>c \<in> set w. \<not> P c"
    by (auto simp: strip_with_def dropWhile_eq_Nil_conv dest: set_dropWhileD)
next
  assume "\<exists>c \<in> set w. \<not> P c"
  then have ne: "dropWhile P w \<noteq> []" by (auto simp: dropWhile_eq_Nil_conv)
  then have "\<not> P (hd (dropWhile P w))" by (rule hd_dropWhile)
  moreover have "hd (dropWhile P w) \<in> set (rev (dropWhile P w))" using ne by simp
  ultimately have "dropWhile P (rev (dropWhile P w)) \<noteq> []"
    unfolding dropWhile_eq_Nil_conv by blast
  then show "strip_with P w \<noteq> []" by (simp add: strip_with_def)
qed

text \<open>
  Claim C6, as the code has it. For every string the derived category is the text before
  the first pipe (the whole string when there is none), trimmed of whitespace; it is
  not empty exactly when that text holds a character that is not whitespace.
\<close>

theorem categoria_prefix:
  "ocorrencia_tipo_categoria (CStr s) = Inr (strip (takeWhile (\<lambda>c. c \<noteq> CHR ''|'') s)) \<and>
   (strip (takeWhile (\<lambda>c. c \<noteq> CHR ''|'') s) \<noteq> [] \<longleftrightarrow>
      (\<exists>c \<in> set (takeWhile (\<lambda>c. c \<noteq> CHR ''|'') s). \<not> isspace c))"
  by (simp add: ocorrencia_tipo_categoria_def item0_split strip_def strip_with_nonempty)

theorem categoria_prefix_witness:
  "ocorrencia_tipo_categoria (CStr ''ACIDENTE | outros | texto'') = Inr ''ACIDENTE''"
  using categoria_prefix [of "''ACIDENTE | outros | texto''"]
  by (simp add: strip_def strip_with_def isspace_def)

text \<open>
  Claim C6 as the specification states it, refuted: the category derived from a string
  that has only a blank before its first pipe is the empty string.
\<close>

theorem categoria_empty_counterexample:
  "ocorrencia_tipo_categoria (CStr '' | FALHA DO MOTOR'') = Inr ''''"
  by (simp add: ocorrencia_tipo_categoria_def item0_def strip_def strip_with_def isspace_def)

section \<open>Properties of the exploration\<close>

subsection \<open>The map of accidents\<close>

lemma add_markers_all:
  "add_markers m rs =
     (if \<forall>r \<in> set rs. ocorrencia_latitude r \<noteq> NaN \<and> ocorrencia_longitude r \<noteq> NaN
      then Inr (m @ map (\<lambda>r. (ocorrencia_latitude r, ocorrencia_longitude r, ocorrencia_cidade r)) rs)
      else Inl ValueError)"
  by (induction rs arbitrary: m) (auto simp: folium_Marker_def)

lemma accident_map_cases:
  "accident_map df =
     (if \<forall>r \<in> set df. ocorrencia_classificacao r = Some ''ACIDENTE'' \<and>
                         dt_le datetime_2020_1_1 (ocorrencia_data r) \<and>
                         ocorrencia_latitude r \<noteq> NaN \<longrightarrow> ocorrencia_longitude r \<noteq> NaN
      then Inr (map (\<lambda>r. (ocorrencia_latitude r, ocorrencia_longitude r, ocorrencia_cidade r))
                 (filter (\<lambda>r. ocorrencia_latitude r \<noteq> NaN \<and> ocorrencia_longitude r \<noteq> NaN \<and>
                               ocorrencia_classificacao r = Some ''ACIDENTE'' \<and>
                               dt_le datetime_2020_1_1 (ocorrencia_data r)) df))
      else Inl ValueError)"
proof -
  let ?sel = "\<lambda>r. ocorrencia_classificacao r = Some ''ACIDENTE'' \<and>
                   dt_le datetime_2020_1_1 (ocorrencia_data r) \<and> ocorrencia_latitude r \<noteq> NaN"
  have rows: "filter (\<lambda>r. notna (ocorrencia_latitude r)) (accidents_2020 df) = filter ?sel df"
    by (simp add: accidents_2020_def accidents_def notna_def conj_commute conj_left_commute)
  show ?thesis
  proof (cases "\<forall>r \<in> set df. ?sel r \<longrightarrow> ocorrencia_longitude r \<noteq> NaN")
    case True
    then have same: "filter ?sel df =
        filter (\<lambda>r. ocorrencia_latitude r \<noteq> NaN \<and> ocorrencia_longitude r \<noteq> NaN \<and>
                     ocorrencia_classificacao r = Some ''ACIDENTE'' \<and>
                     dt_le datetime_2020_1_1 (ocorrencia_data r)) df"
      by (intro filter_cong) auto
    from True have all: "\<forall>r \<in> set (filter ?sel df).
        ocorrencia_latitude r \<noteq> NaN \<and> ocorrencia_longitude r \<noteq> NaN" by auto
    have "accident_map df =
        Inr (map (\<lambda>r. (ocorrencia_latitude r, ocorrencia_longitude r, ocorrencia_cidade r))
              (filter ?sel df))"
      unfolding accident_map_def rows add_markers_all by (simp only: if_P [OF all] append_Nil)
    then have "accident_map df =
        Inr (map (\<lambda>r. (ocorrencia_latitude r, ocorrencia_longitude r, ocorrencia_cidade r))
              (filter (\<lambda>r. ocorrencia_latitude r \<noteq> NaN \<and> ocorrencia_longitude r \<noteq> NaN \<and>
                     ocorrencia_classificacao r = Some ''ACIDENTE'' \<and>
                     dt_le datetime_2020_1_1 (ocorrencia_data r)) df))"
      by (simp only: same)
    then show ?thesis by (simp only: if_P [OF True])
  next
    case False
    then have some: "\<not> (\<forall>r \<in> set (filter ?sel df).
        ocorrencia_latitude r \<noteq> NaN \<and> ocorrencia_longitude r \<noteq> NaN)" by auto
    have "accident_map df = Inl ValueError"
      unfolding accident_map_def rows add_markers_all by (simp only: if_not_P [OF some])
    then show ?thesis by (simp only: if_not_P [OF False])
  qed
qed

text \<open>
  Claim C1, as the code has it. The bound is the one the notebook fixes (1 January 2020,
  00:00:00), and the loop tests the latitude only. When every row whose class is
  \<^verbatim>\<open>'ACIDENTE'\<close>, whose timestamp is not before the bound and whose latitude is defined
  also has a defined longitude, the map holds one triple of latitude, longitude and city
  for every row, in the order of the table, that has both coordinates defined, the class
  \<^verbatim>\<open>'ACIDENTE'\<close> and a timestamp not before the bound. Whenever a map is produced it
  is that list, and no triple of it has an undefined coordinate. When some such row has
  an undefined longitude, \<^verbatim>\<open>folium.Marker\<close> raises \<^verbatim>\<open>ValueError\<close> and no map is produced.
\<close>

theorem accident_map_rows:
  "((\<forall>r \<in> set df. ocorrencia_classificacao r = Some ''ACIDENTE'' \<and>
                    dt_le datetime_2020_1_1 (ocorrencia_data r) \<and>
                    ocorrencia_latitude r \<noteq> NaN \<longrightarrow> ocorrencia_longitude r \<noteq> NaN) \<longrightarrow>
      accident_map df =
        Inr (map (\<lambda>r. (ocorrencia_latitude r, ocorrencia_longitude r, ocorrencia_cidade r))
              (filter (\<lambda>r. ocorrencia_latitude r \<noteq> NaN \<and> ocorrencia_longitude r \<noteq> NaN \<and>
                            ocorrencia_classificacao r = Some ''ACIDENTE'' \<and>
                            dt_le datetime_2020_1_1 (ocorrencia_data r)) df))) \<and>
   (\<forall>ms. accident_map df = Inr ms \<longrightarrow>
      ms = map (\<lambda>r. (ocorrencia_latitude r, ocorrencia_longitude r, ocorrencia_cidade r))
             (filter (\<lambda>r. ocorrencia_latitude r \<noteq> NaN \<and> ocorrencia_longitude r \<noteq> NaN \<and>
                           ocorrencia_classificacao r = Some ''ACIDENTE'' \<and>
                           dt_le datetime_2020_1_1 (ocorrencia_data r)) df) \<and>
      (\<forall>mk \<in> set ms. fst mk \<noteq> NaN \<and> fst (snd mk) \<noteq> NaN)) \<and>
   ((\<exists>r \<in> set df. ocorrencia_classificacao r = Some ''ACIDENTE'' \<and>
                    dt_le datetime_2020_1_1 (ocorrencia_data r) \<and>
                    ocorrencia_latitude r \<noteq> NaN \<and> ocorrencia_longitude r = NaN) \<longrightarrow>
      accident_map df = Inl ValueError)"
proof (intro conjI impI allI)
  assume pre: "\<forall>r \<in> set df. ocorrencia_classificacao r = Some ''ACIDENTE'' \<and>
                    dt_le datetime_2020_1_1 (ocorrencia_data r) \<and>
                    ocorrencia_latitude r \<noteq> NaN \<longrightarrow> ocorrencia_longitude r \<noteq> NaN"
  show "accident_map df =
        Inr (map (\<lambda>r. (ocorrencia_latitude r, ocorrencia_longitude r, ocorrencia_cidade r))
              (filter (\<lambda>r. ocorrencia_latitude r \<noteq> NaN \<and> ocorrencia_longitude r \<noteq> NaN \<and>
                            ocorrencia_classificacao r = Some ''ACIDENTE'' \<and>
                            dt_le datetime_2020_1_1 (ocorrencia_data r)) df))"
    by (simp only: accident_map_cases if_P [OF pre])
next
  fix ms assume ok: "accident_map df = Inr ms"
  show eq: "ms = map (\<lambda>r. (ocorrencia_latitude r, ocorrencia_longitude r, ocorrencia_cidade r))
             (filter (\<lambda>r. ocorrencia_latitude r \<noteq> NaN \<and> ocorrencia_longitude r \<noteq> NaN \<and>
                           ocorrencia_classificacao r = Some ''ACIDENTE'' \<and>
                           dt_le datetime_2020_1_1 (ocorrencia_data r)) df)"
  proof (cases "\<forall>r \<in> set df. ocorrencia_classificacao r = Some ''ACIDENTE'' \<and>
                    dt_le datetime_2020_1_1 (ocorrencia_data r) \<and>
                    ocorrencia_latitude r \<noteq> NaN \<longrightarrow> ocorrencia_longitude r \<noteq> NaN")
    case True
    have "accident_map df =
        Inr (map (\<lambda>r. (ocorrencia_latitude r, ocorrencia_longitude r, ocorrencia_cidade r))
              (filter (\<lambda>r. ocorrencia_latitude r \<noteq> NaN \<and> ocorrencia_longitude r \<noteq> NaN \<and>
                            ocorrencia_classificacao r = Some ''ACIDENTE'' \<and>
                            dt_le datetime_2020_1_1 (ocorrencia_data r)) df))"
      by (simp only: accident_map_cases if_P [OF True])
    with ok show ?thesis by (simp only: sum.inject)
  next
    case False
    have "accident_map df = Inl ValueError"
      by (simp only: accident_map_cases if_not_P [OF False])
    with ok show ?thesis by (simp only: sum.distinct)
  qed
  show "\<forall>mk \<in> set ms. fst mk \<noteq> NaN \<and> fst (snd mk) \<noteq> NaN"
    unfolding eq by auto
next
  assume "\<exists>r \<in> set df. ocorrencia_classificacao r = Some ''ACIDENTE'' \<and>
                    dt_le datetime_2020_1_1 (ocorrencia_data r) \<and>
                    ocorrencia_latitude r \<noteq> NaN \<and> ocorrencia_longitude r = NaN"
  then have bad: "\<not> (\<forall>r \<in> set df. ocorrencia_classificacao r = Some ''ACIDENTE'' \<and>
                    dt_le datetime_2020_1_1 (ocorrencia_data r) \<and>
                    ocorrencia_latitude r \<noteq> NaN \<longrightarrow> ocorrencia_longitude r \<noteq> NaN)"
    by blast
  show "accident_map df = Inl ValueError"
    by (simp only: accident_map_cases if_not_P [OF bad])
qed

theorem accident_map_rows_witness:
  "accident_map
     [\<lparr>codigo_ocorrencia = Some 1, ocorrencia_classificacao = Some ''ACIDENTE'',
       ocorrencia_data = \<lparr>year = 2020, month = 3, day = 7, hour = 14, minute = 30, second = 0\<rparr>,
       ocorrencia_latitude = Fin (- 23), ocorrencia_longitude = Fin (- 46),
       ocorrencia_cidade = Some ''SP''\<rparr>,
      \<lparr>codigo_ocorrencia = Some 2, ocorrencia_classificacao = Some ''ACIDENTE'',
       ocorrencia_data = \<lparr>year = 2019, month = 12, day = 31, hour = 23, minute = 59, second = 59\<rparr>,
       ocorrencia_latitude = Fin (- 3), ocorrencia_longitude = NaN,
       ocorrencia_cidade = Some ''MANAUS''\<rparr>,
      \<lparr>codigo_ocorrencia = Some 3, ocorrencia_classificacao = Some ''INCIDENTE'',
       ocorrencia_data = \<lparr>year = 2021, month = 1, day = 1, hour = 0, minute = 0, second = 0\<rparr>,
       ocorrencia_latitude = Fin (- 15), ocorrencia_longitude = Fin (- 47),
       ocorrencia_cidade = Some ''BSB''\<rparr>,
      \<lparr>codigo_ocorrencia = Some 4, ocorrencia_classificacao = Some ''ACIDENTE'',
       ocorrencia_data = \<lparr>year = 2020, month = 1, day = 1, hour = 0, minute = 0, second = 0\<rparr>,
       ocorrencia_latitude = NaN, ocorrencia_longitude = NaN,
       ocorrencia_cidade = Some ''RIO''\<rparr>]
   = Inr [(Fin (- 23), Fin (- 46), Some ''SP'')]"
  by (rule trans [OF accident_map_rows [THEN conjunct1, THEN mp]])
     (simp_all add: dt_le_def dt_key_def datetime_2020_1_1_def)

text \<open>
  Claim C1 as the specification states it, refuted: the second row, an accident of 2020
  whose latitude is defined and whose longitude is not, is not left out but handed to
  \<^verbatim>\<open>folium.Marker\<close>, which raises \<^verbatim>\<open>ValueError\<close>; the first row, which has both coordinates,
  gets no triple in any result.
\<close>

theorem accident_map_longitude_counterexample:
  "accident_map
     [\<lparr>codigo_ocorrencia = Some 1, ocorrencia_classificacao = Some ''ACIDENTE'',
       ocorrencia_data = \<lparr>year = 2020, month = 3, day = 7, hour = 14, minute = 30, second = 0\<rparr>,
       ocorrencia_latitude = Fin (- 23), ocorrencia_longitude = Fin (- 46),
       ocorrencia_cidade = Some ''SP''\<rparr>,
      \<lparr>codigo_ocorrencia = Some 2, ocorrencia_classificacao = Some ''ACIDENTE'',
       ocorrencia_data = \<lparr>year = 2020, month = 5, day = 2, hour = 8, minute = 0, second = 0\<rparr>,
       ocorrencia_latitude = Fin (- 3), ocorrencia_longitude = NaN,
       ocorrencia_cidade = Some ''MANAUS''\<rparr>]
   = Inl ValueError"
  by (simp add: accident_map_def accidents_2020_def accidents_def notna_def dt_le_def dt_key_def
      datetime_2020_1_1_def folium_Marker_def)

subsection \<open>Occurrences per month\<close>















subsection \<open>Occurrences per month and class\<close>






section \<open>Properties of the statistics\<close>

subsection \<open>\<^verbatim>\<open>describe\<close>\<close>

lemma quantile_single: "quantile [v] q = Some v"
  by (simp add: quantile_def Let_def)

text \<open>
  Claim C4, as the code has it. For a numeric column with exactly one value that is not
  missing, \<^verbatim>\<open>describe\<close> returns the count 1, that value as the mean, the minimum, the
  maximum and the 25th, 50th and 75th percentiles, and a missing standard deviation: the
  standard deviation of a sample divides by the count minus one.
\<close>

theorem describe_single:
  "dropna col = [v] \<Longrightarrow>
   describe col = \<lparr>count = 1, mean = Some v, std = None, minimum = Some v, pct25 = Some v,
                   pct50 = Some v, pct75 = Some v, maximum = Some v\<rparr>"
  by (simp add: describe_def Let_def series_mean_def series_std_def quantile_single)

theorem describe_single_witness:
  "dropna [None, Some 6, None] = [6 :: rat] \<and>
   describe [None, Some 6, None] =
     \<lparr>count = 1, mean = Some 6, std = None, minimum = Some 6, pct25 = Some 6,
      pct50 = Some 6, pct75 = Some 6, maximum = Some 6\<rparr>"
proof -
  have h: "dropna [None, Some 6, None] = [6 :: rat]" by (simp add: dropna_def)
  from describe_single [OF h] h show ?thesis by simp
qed

text \<open>
  Claim C4 as the specification states it, refuted: the standard deviation of a column
  with the single value 6 is not 0; it is missing.
\<close>

theorem describe_std_counterexample:
  "std (describe [Some 6]) \<noteq> Some (Sqrt 0)"
  by (simp add: describe_def Let_def dropna_def series_std_def)

section \<open>Properties of the column \<^verbatim>\<open>ocorrencia_data\<close>\<close>

subsection \<open>Whitespace and the directives\<close>

lemma space_range: "isspace c \<Longrightarrow> (of_char c :: nat) < 48 \<or> 57 < (of_char c :: nat)"
  by (auto simp: isspace_def)

lemma digit_range: "digit c \<Longrightarrow> 48 \<le> (of_char c :: nat) \<and> (of_char c :: nat) \<le> 57"
  by (auto simp: digit_def)

lemma between_range:
  "between lo hi c \<Longrightarrow> CHR ''0'' \<le> lo \<Longrightarrow> hi \<le> CHR ''9'' \<Longrightarrow>
   48 \<le> (of_char c :: nat) \<and> (of_char c :: nat) \<le> 57"
  by (simp add: between_def less_eq_char_def)

lemma is_char_range:
  "is_char a c \<Longrightarrow> CHR ''0'' \<le> a \<Longrightarrow> a \<le> CHR ''9'' \<Longrightarrow>
   48 \<le> (of_char c :: nat) \<and> (of_char c :: nat) \<le> 57"
  by (simp add: is_char_def less_eq_char_def)

lemma two_nil: "\<not> P c \<Longrightarrow> two P Q (c # r) = []"
  by (simp add: two_def split: list.splits)

lemma one_nil: "\<not> P c \<Longrightarrow> one P (c # r) = []"
  by (simp add: one_def)

lemma item_match_space_H:
  assumes "isspace c"
  shows "item_match Dir_H (c # r) = []"
proof -
  have a: "\<not> is_char CHR ''2'' c"
    using space_range [OF assms] is_char_range [of "CHR ''2''" c] by auto
  have b: "\<not> between CHR ''0'' CHR ''1'' c"
    using space_range [OF assms] between_range [of "CHR ''0''" "CHR ''1''" c] by auto
  have d: "\<not> digit c"
    using space_range [OF assms] digit_range [of c] by auto
  show ?thesis by (simp add: two_nil one_nil a b d)
qed

lemma rmatch_time_space: "isspace c \<Longrightarrow> rmatch fmt_time (c # r) = []"
  by (simp add: fmt_time_def item_match_space_H del: item_match.simps)

lemma blank_classes:
  "\<not> digit CHR '' ''" "\<not> between CHR ''0'' hi CHR '' ''" "\<not> between CHR ''1'' hi CHR '' ''"
  by (simp_all add: digit_def between_def)

lemma two_blind:
  assumes "\<not> Q CHR '' ''" and "\<not> P CHR '' ''"
  shows "two P Q (s @ CHR '' '' # h) = map (\<lambda>(txt, r). (txt, r @ CHR '' '' # h)) (two P Q s)"
proof (cases s)
  case Nil
  then show ?thesis using assms by (simp add: two_def split: list.splits)
next
  case (Cons a s')
  then show ?thesis using assms by (cases s') (simp_all add: two_def)
qed

lemma two_blind_ne:
  assumes "\<not> Q CHR '' ''" and "s \<noteq> []"
  shows "two P Q (s @ CHR '' '' # h) = map (\<lambda>(txt, r). (txt, r @ CHR '' '' # h)) (two P Q s)"
proof (cases s)
  case Nil
  then show ?thesis using assms by simp
next
  case (Cons a s')
  then show ?thesis using assms by (cases s') (simp_all add: two_def)
qed

lemma one_blind: "\<not> P CHR '' '' \<Longrightarrow>
  one P (s @ CHR '' '' # h) = map (\<lambda>(txt, r). (txt, r @ CHR '' '' # h)) (one P s)"
  by (cases s) (simp_all add: one_def)

lemma blind_m: "blind (CHR '' '' # h) Dir_m"
  by (simp add: blind_def two_blind one_blind is_char_def blank_classes)

lemma blind_Lit: "c \<noteq> CHR '' '' \<Longrightarrow> blind (CHR '' '' # h) (Lit c)"
  by (simp add: blind_def one_blind is_char_def)

lemma item_match_Y_short: "length s < 4 \<Longrightarrow> item_match Dir_Y (s @ CHR '' '' # h) = [] \<and> item_match Dir_Y s = []"
proof -
  assume "length s < 4"
  then consider "s = []" | a where "s = [a]" | a b where "s = [a, b]" | a b c where "s = [a, b, c]"
    by (cases s; cases "tl s"; cases "tl (tl s)"; cases "tl (tl (tl s))") auto
  then show ?thesis
    by cases (simp_all add: blank_classes split: list.splits)
qed

lemma item_match_Y_long: "4 \<le> length s \<Longrightarrow>
   item_match Dir_Y (s @ t) = map (\<lambda>(txt, r). (txt, r @ t)) (item_match Dir_Y s)"
proof -
  assume "4 \<le> length s"
  then obtain a b c d r where "s = a # b # c # d # r"
    by (cases s; cases "tl s"; cases "tl (tl s)"; cases "tl (tl (tl s))") auto
  then show ?thesis by simp
qed

lemma blind_Y: "blind (CHR '' '' # h) Dir_Y"
  unfolding blind_def
proof
  fix s :: string
  show "item_match Dir_Y (s @ CHR '' '' # h) =
        map (\<lambda>(txt, r). (txt, r @ CHR '' '' # h)) (item_match Dir_Y s)"
  proof (cases "length s < 4")
    case True
    then show ?thesis using item_match_Y_short [of s h] by simp
  next
    case False
    then show ?thesis using item_match_Y_long [of s] by simp
  qed
qed

lemma item_match_d_ne: "s \<noteq> [] \<Longrightarrow>
  item_match Dir_d (s @ CHR '' '' # h) = map (\<lambda>(txt, r). (txt, r @ CHR '' '' # h)) (item_match Dir_d s)"
  by (simp add: two_blind_ne one_blind is_char_def blank_classes)

subsection \<open>Matching a format\<close>

lemma rmatch_Cons_blind:
  assumes "item_match i (s @ t) = map (\<lambda>(txt, r). (txt, r @ t)) (item_match i s)"
    and "\<And>r. rmatch is (r @ t) = map (\<lambda>(g, r). (g, r @ t)) (rmatch is r)"
  shows "rmatch (i # is) (s @ t) = map (\<lambda>(g, r). (g, r @ t)) (rmatch (i # is) s)"
  by (simp add: assms map_concat comp_def case_prod_beta del: item_match.simps)

lemma rmatch_blind:
  "\<forall>i \<in> set fmt. blind t i \<Longrightarrow> rmatch fmt (s @ t) = map (\<lambda>(g, r). (g, r @ t)) (rmatch fmt s)"
proof (induction fmt arbitrary: s)
  case Nil
  then show ?case by simp
next
  case (Cons i fmt)
  then have "item_match i (s @ t) = map (\<lambda>(txt, r). (txt, r @ t)) (item_match i s)"
    by (simp add: blind_def)
  moreover have "\<And>r. rmatch fmt (r @ t) = map (\<lambda>(g, r). (g, r @ t)) (rmatch fmt r)"
    using Cons by simp
  ultimately show ?case by (rule rmatch_Cons_blind)
qed

lemma rmatch_date_blank:
  assumes "d \<noteq> []"
  shows "rmatch fmt_date (d @ CHR '' '' # h) =
         map (\<lambda>(g, r). (g, r @ CHR '' '' # h)) (rmatch fmt_date d)"
  unfolding fmt_date_def
proof (rule rmatch_Cons_blind)
  show "item_match Dir_d (d @ CHR '' '' # h) =
        map (\<lambda>(txt, r). (txt, r @ CHR '' '' # h)) (item_match Dir_d d)"
    using assms by (rule item_match_d_ne)
next
  fix r
  show "rmatch [Lit CHR ''/'', Dir_m, Lit CHR ''/'', Dir_Y] (r @ CHR '' '' # h) =
        map (\<lambda>(g, r). (g, r @ CHR '' '' # h)) (rmatch [Lit CHR ''/'', Dir_m, Lit CHR ''/'', Dir_Y] r)"
    by (rule rmatch_blind) (simp add: blind_m blind_Y blind_Lit)
qed

lemma concat_concat_map: "concat (concat xss) = concat (map concat xss)"
  by (induction xss) simp_all

lemma rmatch_append:
  "rmatch (xs @ ys) s =
     concat (map (\<lambda>(g, r). map (\<lambda>(g', r'). (g @ g', r')) (rmatch ys r)) (rmatch xs s))"
proof (induction xs arbitrary: s)
  case Nil
  then show ?case by (simp add: case_prod_beta)
next
  case (Cons i xs)
  show ?case
    by (simp add: Cons map_concat comp_def split_def concat_concat_map del: item_match.simps)
qed

lemma rmatch_keys: "(g, r) \<in> set (rmatch fmt s) \<Longrightarrow> map fst g = fmt"
  by (induction fmt arbitrary: s g r) (auto simp del: item_match.simps)

lemma lit_after:
  "length (concat (map (\<lambda>(txt, r). map (F txt) (rmatch [Lit c] r)) L)) =
   length (filter (\<lambda>(txt, r). r \<noteq> [] \<and> hd r = c) L)"
  by (induction L) (auto simp: one_def is_char_def split: list.splits)

lemma rmatch_item_lit:
  "length (rmatch [i, Lit c] s) = length (filter (\<lambda>(txt, r). r \<noteq> [] \<and> hd r = c) (item_match i s))"
proof -
  have "rmatch [i, Lit c] s =
    concat (map (\<lambda>(txt, r). map (\<lambda>(found, r'). ((i, txt) # found, r')) (rmatch [Lit c] r))
                (item_match i s))"
    by (simp del: item_match.simps)
  then show ?thesis by (simp only: lit_after)
qed

lemma two_cases: "two P Q s = [] \<or> (\<exists>a b r. s = a # b # r \<and> P a \<and> Q b \<and> two P Q s = [([a, b], r)])"
  by (cases s; cases "tl s") (auto simp: two_def)

lemma one_cases: "one P s = [] \<or> (\<exists>a r. s = a # r \<and> P a \<and> one P s = [([a], r)])"
  by (cases s) (auto simp: one_def)

lemma slash_classes:
  "\<not> digit CHR ''/''" "\<not> between CHR ''0'' hi CHR ''/''" "\<not> between CHR ''1'' hi CHR ''/''"
  by (simp_all add: digit_def between_def)

lemma stage_d: "length (rmatch [Dir_d, Lit CHR ''/''] s) \<le> 1"
proof -
  let ?keep = "\<lambda>(txt, r). r \<noteq> [] \<and> hd r = CHR ''/''"
  let ?t1 = "two (is_char CHR ''3'') (between CHR ''0'' CHR ''1'') s"
  let ?t2 = "two (between CHR ''1'' CHR ''2'') digit s"
  let ?t3 = "two (is_char CHR ''0'') (between CHR ''1'' CHR ''9'') s"
  let ?o4 = "one (between CHR ''1'' CHR ''9'') s"
  let ?t5 = "two (is_char CHR '' '') (between CHR ''1'' CHR ''9'') s"
  have e12: "?t1 = [] \<or> ?t2 = []"
    using two_cases [of "is_char CHR ''3''" "between CHR ''0'' CHR ''1''" s]
      two_cases [of "between CHR ''1'' CHR ''2''" digit s]
    by (auto simp: is_char_def between_def)
  have e13: "?t1 = [] \<or> ?t3 = []"
    using two_cases [of "is_char CHR ''3''" "between CHR ''0'' CHR ''1''" s]
      two_cases [of "is_char CHR ''0''" "between CHR ''1'' CHR ''9''" s]
    by (auto simp: is_char_def)
  have e15: "?t1 = [] \<or> ?t5 = []"
    using two_cases [of "is_char CHR ''3''" "between CHR ''0'' CHR ''1''" s]
      two_cases [of "is_char CHR '' ''" "between CHR ''1'' CHR ''9''" s]
    by (auto simp: is_char_def)
  have e23: "?t2 = [] \<or> ?t3 = []"
    using two_cases [of "between CHR ''1'' CHR ''2''" digit s]
      two_cases [of "is_char CHR ''0''" "between CHR ''1'' CHR ''9''" s]
    by (auto simp: is_char_def between_def)
  have e25: "?t2 = [] \<or> ?t5 = []"
    using two_cases [of "between CHR ''1'' CHR ''2''" digit s]
      two_cases [of "is_char CHR '' ''" "between CHR ''1'' CHR ''9''" s]
    by (auto simp: is_char_def between_def)
  have e35: "?t3 = [] \<or> ?t5 = []"
    using two_cases [of "is_char CHR ''0''" "between CHR ''1'' CHR ''9''" s]
      two_cases [of "is_char CHR '' ''" "between CHR ''1'' CHR ''9''" s]
    by (auto simp: is_char_def)
  have l1: "length ?t1 \<le> 1" using two_cases [of "is_char CHR ''3''" "between CHR ''0'' CHR ''1''" s] by auto
  have l2: "length ?t2 \<le> 1" using two_cases [of "between CHR ''1'' CHR ''2''" digit s] by auto
  have l3: "length ?t3 \<le> 1" using two_cases [of "is_char CHR ''0''" "between CHR ''1'' CHR ''9''" s] by auto
  have l5: "length ?t5 \<le> 1" using two_cases [of "is_char CHR '' ''" "between CHR ''1'' CHR ''9''" s] by auto
  have twos: "length (?t1 @ ?t2 @ ?t3 @ ?t5) \<le> 1"
    using e12 e13 e15 e23 e25 e35 l1 l2 l3 l5 by auto
  have o4: "filter ?keep ?o4 = [] \<or> (?t1 = [] \<and> ?t2 = [] \<and> ?t3 = [] \<and> ?t5 = [])"
  proof (cases "filter ?keep ?o4 = []")
    case True
    then show ?thesis by simp
  next
    case False
    then obtain a r where s: "s = a # CHR ''/'' # r"
      using one_cases [of "between CHR ''1'' CHR ''9''" s]
      by (cases "tl s") (auto split: if_splits)
    then show ?thesis by (simp add: two_def slash_classes)
  qed
  have lo: "length (filter ?keep ?o4) \<le> 1"
    using one_cases [of "between CHR ''1'' CHR ''9''" s] by (auto split: if_splits)
  have "length (filter ?keep (item_match Dir_d s)) \<le>
        length (?t1 @ ?t2 @ ?t3 @ ?t5) + length (filter ?keep ?o4)"
    by (simp add: le_imp_less_Suc add_mono length_filter_le trans_le_add1)
  moreover have "length (?t1 @ ?t2 @ ?t3 @ ?t5) + length (filter ?keep ?o4) \<le> 1"
    using twos o4 lo by auto
  ultimately show ?thesis unfolding rmatch_item_lit by linarith
qed

lemma stage_m: "length (rmatch [Dir_m, Lit CHR ''/''] s) \<le> 1"
proof -
  let ?keep = "\<lambda>(txt, r). r \<noteq> [] \<and> hd r = CHR ''/''"
  let ?t1 = "two (is_char CHR ''1'') (between CHR ''0'' CHR ''2'') s"
  let ?t2 = "two (is_char CHR ''0'') (between CHR ''1'' CHR ''9'') s"
  let ?o3 = "one (between CHR ''1'' CHR ''9'') s"
  have e12: "?t1 = [] \<or> ?t2 = []"
    using two_cases [of "is_char CHR ''1''" "between CHR ''0'' CHR ''2''" s]
      two_cases [of "is_char CHR ''0''" "between CHR ''1'' CHR ''9''" s]
    by (auto simp: is_char_def)
  have l1: "length ?t1 \<le> 1" using two_cases [of "is_char CHR ''1''" "between CHR ''0'' CHR ''2''" s] by auto
  have l2: "length ?t2 \<le> 1" using two_cases [of "is_char CHR ''0''" "between CHR ''1'' CHR ''9''" s] by auto
  have twos: "length (?t1 @ ?t2) \<le> 1"
    using e12 l1 l2 by auto
  have o3: "filter ?keep ?o3 = [] \<or> (?t1 = [] \<and> ?t2 = [])"
  proof (cases "filter ?keep ?o3 = []")
    case True
    then show ?thesis by simp
  next
    case False
    then obtain a r where s: "s = a # CHR ''/'' # r"
      using one_cases [of "between CHR ''1'' CHR ''9''" s]
      by (cases "tl s") (auto split: if_splits)
    then show ?thesis by (simp add: two_def slash_classes)
  qed
  have lo: "length (filter ?keep ?o3) \<le> 1"
    using one_cases [of "between CHR ''1'' CHR ''9''" s] by (auto split: if_splits)
  have "length (filter ?keep (item_match Dir_m s)) \<le>
        length (?t1 @ ?t2) + length (filter ?keep ?o3)"
    by (simp add: le_imp_less_Suc add_mono length_filter_le trans_le_add1)
  moreover have "length (?t1 @ ?t2) + length (filter ?keep ?o3) \<le> 1"
    using twos o3 lo by auto
  ultimately show ?thesis unfolding rmatch_item_lit by linarith
qed

lemma stage_Y: "length (rmatch [Dir_Y] s) \<le> 1"
  by (simp split: list.splits)

lemma rmatch_append_unique:
  assumes "\<And>s. length (rmatch xs s) \<le> 1" and "\<And>s. length (rmatch ys s) \<le> 1"
  shows "length (rmatch (xs @ ys) s) \<le> 1"
proof (cases "rmatch xs s")
  case Nil
  then show ?thesis by (simp add: rmatch_append)
next
  case (Cons p ps)
  with assms(1) [of s] have "ps = []" by simp
  with Cons show ?thesis using assms(2) [of "snd p"] by (simp add: rmatch_append split_def)
qed

lemma rmatch_date_unique: "length (rmatch fmt_date s) \<le> 1"
proof -
  have f: "fmt_date = [Dir_d, Lit CHR ''/''] @ [Dir_m, Lit CHR ''/''] @ [Dir_Y]"
    by (simp add: fmt_date_def)
  have "\<And>s. length (rmatch ([Dir_m, Lit CHR ''/''] @ [Dir_Y]) s) \<le> 1"
    by (rule rmatch_append_unique) (rule stage_m stage_Y)+
  then show ?thesis
    unfolding f by (rule rmatch_append_unique [OF stage_d])
qed

lemma isspace_blank: "isspace CHR '' ''"
  by (simp add: isspace_def)

lemma spaces_then:
  assumes rej: "\<And>c r. isspace c \<Longrightarrow> rmatch F (c # r) = []" and c0: "isspace c0"
  shows "rmatch (Spaces # F) (c0 # h) =
         map (\<lambda>(g, r). ((Spaces, c0 # takeWhile isspace h) # g, r)) (rmatch F (dropWhile isspace h))"
proof -
  define w where "w = c0 # takeWhile isspace h"
  define u where "u = dropWhile isspace h"
  define m where "m = length (takeWhile isspace h)"
  let ?G = "\<lambda>(txt, r). map (\<lambda>(found, r'). ((Spaces, txt) # found, r')) (rmatch F r)"
  let ?pair = "\<lambda>n. (take n (c0 # h), drop n (c0 # h))"
  have s: "c0 # h = w @ u" by (simp add: w_def u_def)
  have lw: "length w = Suc m" by (simp add: w_def m_def)
  have tw: "takeWhile isspace (c0 # h) = w" using c0 by (simp add: w_def)
  have ws: "\<forall>c \<in> set w. isspace c" using c0 by (auto simp: w_def dest: set_takeWhileD)
  have short: "?G (?pair n) = []" if "n \<in> set [1 ..< Suc m]" for n
  proof -
    from that have n: "n < length w" by (simp add: lw del: upt_Suc)
    then have "drop n (c0 # h) = w ! n # (drop (Suc n) w @ u)"
      by (simp add: s Cons_nth_drop_Suc)
    moreover have "isspace (w ! n)" using ws n by simp
    ultimately show ?thesis by (simp add: rej)
  qed
  have idx: "rev [1 ..< Suc (length w)] = Suc m # rev [1 ..< Suc m]"
    by (simp add: lw)
  have "rmatch (Spaces # F) (c0 # h) = concat (map ?G (map ?pair (rev [1 ..< Suc (length w)])))"
    by (simp only: rmatch.simps item_match.simps tw)
  also have "\<dots> = ?G (?pair (Suc m)) @ concat (map ?G (map ?pair (rev [1 ..< Suc m])))"
    by (simp only: idx list.map concat.simps)
  also have "concat (map ?G (map ?pair (rev [1 ..< Suc m]))) = []"
    using short by (simp del: upt_Suc)
  also have "?pair (Suc m) = (w, u)"
    using lw by (simp add: s)
  finally show ?thesis by (simp add: w_def u_def)
qed

lemma rmatch_date_time:
  assumes "rmatch fmt_date d = [(g, [])]"
  shows "rmatch fmt_date_time (d @ CHR '' '' # h) =
         map (\<lambda>(gt, r). (g @ (Spaces, CHR '' '' # takeWhile isspace h) # gt, r))
             (rmatch fmt_time (dropWhile isspace h))"
proof -
  have "d \<noteq> []"
  proof
    assume "d = []"
    then have "rmatch fmt_date d = []" by (simp add: fmt_date_def two_def one_def)
    with assms show False by simp
  qed
  then have "rmatch fmt_date (d @ CHR '' '' # h) = [(g, CHR '' '' # h)]"
    by (simp add: rmatch_date_blank assms)
  then have "rmatch fmt_date_time (d @ CHR '' '' # h) =
      map (\<lambda>(g', r'). (g @ g', r')) (rmatch (Spaces # fmt_time) (CHR '' '' # h))"
    unfolding fmt_date_time_def rmatch_append by simp
  also have "rmatch (Spaces # fmt_time) (CHR '' '' # h) =
      map (\<lambda>(gt, r). ((Spaces, CHR '' '' # takeWhile isspace h) # gt, r))
          (rmatch fmt_time (dropWhile isspace h))"
    by (rule spaces_then) (simp_all add: rmatch_time_space isspace_blank)
  finally show ?thesis by (simp add: split_def comp_def)
qed

subsection \<open>The date, then the time\<close>

lemma group_int_left:
  "k \<in> set (map fst g) \<Longrightarrow> group_int dflt k (g @ g') = group_int dflt k g"
proof -
  assume "k \<in> set (map fst g)"
  then obtain v where "map_of g k = Some v"
    by (metis map_of_eq_None_iff not_Some_eq set_map)
  then show ?thesis by (simp add: group_int_def map_add_def)
qed

lemma group_int_right:
  "k \<notin> set (map fst g) \<Longrightarrow> group_int dflt k (g @ g') = group_int dflt k g'"
proof -
  assume "k \<notin> set (map fst g)"
  then have "map_of g k = None" by (simp add: map_of_eq_None_iff)
  then show ?thesis by (simp add: group_int_def map_add_def)
qed

lemma group_int_absent: "k \<notin> set (map fst g) \<Longrightarrow> group_int dflt k g = dflt"
proof -
  assume "k \<notin> set (map fst g)"
  then have "map_of g k = None" by (simp add: map_of_eq_None_iff)
  then show ?thesis by (simp add: group_int_def)
qed

lemma group_int_skip: "k \<noteq> k' \<Longrightarrow> group_int dflt k ((k', w) # g) = group_int dflt k g"
  by (simp add: group_int_def)

lemma valid_defaults: "valid_date 1900 (Suc 0) (Suc 0)" "valid_time 0 0 0"
  by (simp_all add: valid_date_def valid_time_def days_in_month_def)

lemma strptime_date_Inr:
  assumes "strptime d fmt_date = Inr dt"
  obtains g where "rmatch fmt_date d = [(g, [])]"
    and "valid_date (group_int 1900 Dir_Y g) (group_int 1 Dir_m g) (group_int 1 Dir_d g)"
    and "dt = \<lparr>year = group_int 1900 Dir_Y g, month = group_int 1 Dir_m g,
               day = group_int 1 Dir_d g, hour = 0, minute = 0, second = 0\<rparr>"
proof -
  from assms obtain g rest more where m: "rmatch fmt_date d = (g, rest) # more"
    by (cases "rmatch fmt_date d") (auto simp: strptime_def)
  with rmatch_date_unique [of d] have more: "more = []" by simp
  from m have keys: "map fst g = fmt_date"
    by (intro rmatch_keys [of g rest fmt_date d]) simp
  have H: "group_int 0 Dir_H g = 0" and M: "group_int 0 Dir_M g = 0" and S: "group_int 0 Dir_S g = 0"
    by (simp_all add: group_int_absent keys fmt_date_def)
  from assms m have rest: "rest = []"
    by (auto simp: strptime_def split: if_splits)
  from assms m rest
  have v: "valid_date (group_int 1900 Dir_Y g) (group_int 1 Dir_m g) (group_int 1 Dir_d g)"
    by (auto simp: strptime_def Let_def split: if_splits)
  from assms m rest v
  have "dt = \<lparr>year = group_int 1900 Dir_Y g, month = group_int 1 Dir_m g,
               day = group_int 1 Dir_d g, hour = 0, minute = 0, second = 0\<rparr>"
    by (auto simp: strptime_def Let_def H M S split: if_splits)
  with m more rest v that show thesis by simp
qed

lemma strptime_time_eq:
  "strptime u fmt_time =
     (case rmatch fmt_time u of
        [] \<Rightarrow> Inl ValueError
      | (gt, r) # _ \<Rightarrow>
          if r \<noteq> [] then Inl ValueError
          else if \<not> valid_time (group_int 0 Dir_H gt) (group_int 0 Dir_M gt) (group_int 0 Dir_S gt)
               then Inl ValueError
               else Inr \<lparr>year = 1900, month = 1, day = 1, hour = group_int 0 Dir_H gt,
                         minute = group_int 0 Dir_M gt, second = group_int 0 Dir_S gt\<rparr>)"
proof (cases "rmatch fmt_time u")
  case Nil
  then show ?thesis by (simp add: strptime_def)
next
  case (Cons p ps)
  obtain gt r where p: "p = (gt, r)" by (cases p)
  with Cons have keys: "map fst gt = fmt_time"
    by (intro rmatch_keys [of gt r fmt_time u]) simp
  have d: "group_int 1900 Dir_Y gt = 1900" "group_int (Suc 0) Dir_m gt = Suc 0"
    "group_int (Suc 0) Dir_d gt = Suc 0"
    by (simp_all add: group_int_absent keys fmt_time_def)
  show ?thesis
    by (simp add: strptime_def Cons p Let_def d valid_defaults)
qed

lemma strptime_date_time:
  assumes "strptime d fmt_date = Inr dt"
  shows "strptime (d @ CHR '' '' # h) fmt_date_time =
     (case strptime (dropWhile isspace h) fmt_time of
        Inl e \<Rightarrow> Inl ValueError
      | Inr tm \<Rightarrow> Inr (dt\<lparr>hour := hour tm, minute := minute tm, second := second tm\<rparr>))"
proof -
  from assms obtain g where g: "rmatch fmt_date d = [(g, [])]"
    and v: "valid_date (group_int 1900 Dir_Y g) (group_int 1 Dir_m g) (group_int 1 Dir_d g)"
    and dt: "dt = \<lparr>year = group_int 1900 Dir_Y g, month = group_int 1 Dir_m g,
               day = group_int 1 Dir_d g, hour = 0, minute = 0, second = 0\<rparr>"
    by (rule strptime_date_Inr)
  from g have keys: "map fst g = fmt_date"
    by (intro rmatch_keys [of g "[]" fmt_date d]) simp
  let ?w = "CHR '' '' # takeWhile isspace h"
  have full: "rmatch fmt_date_time (d @ CHR '' '' # h) =
         map (\<lambda>(gt, r). (g @ (Spaces, ?w) # gt, r)) (rmatch fmt_time (dropWhile isspace h))"
    using g by (rule rmatch_date_time)
  show ?thesis
  proof (cases "rmatch fmt_time (dropWhile isspace h)")
    case Nil
    then show ?thesis by (simp add: strptime_time_eq) (simp add: strptime_def full Nil)
  next
    case (Cons p ps)
    obtain gt r where p: "p = (gt, r)" by (cases p)
    have date: "group_int 1900 Dir_Y (g @ (Spaces, ?w) # gt) = group_int 1900 Dir_Y g"
      "group_int (Suc 0) Dir_m (g @ (Spaces, ?w) # gt) = group_int (Suc 0) Dir_m g"
      "group_int (Suc 0) Dir_d (g @ (Spaces, ?w) # gt) = group_int (Suc 0) Dir_d g"
      by (simp_all add: group_int_left keys fmt_date_def)
    have time: "group_int 0 Dir_H (g @ (Spaces, ?w) # gt) = group_int 0 Dir_H gt"
      "group_int 0 Dir_M (g @ (Spaces, ?w) # gt) = group_int 0 Dir_M gt"
      "group_int 0 Dir_S (g @ (Spaces, ?w) # gt) = group_int 0 Dir_S gt"
      by (simp_all add: group_int_right group_int_skip keys fmt_date_def)
    have "strptime (d @ CHR '' '' # h) fmt_date_time =
          (if r \<noteq> [] then Inl ValueError
           else if \<not> valid_time (group_int 0 Dir_H gt) (group_int 0 Dir_M gt) (group_int 0 Dir_S gt)
                then Inl ValueError
                else Inr \<lparr>year = group_int 1900 Dir_Y g, month = group_int 1 Dir_m g,
                          day = group_int 1 Dir_d g, hour = group_int 0 Dir_H gt,
                          minute = group_int 0 Dir_M gt, second = group_int 0 Dir_S gt\<rparr>)"
      using v by (simp add: strptime_def full Cons p Let_def date time)
    then show ?thesis
      by (simp add: strptime_time_eq Cons p dt)
  qed
qed

lemmas strptime_eval_defs =
  strptime_def fmt_date_time_def fmt_date_def fmt_time_def two_def one_def is_char_def
  between_def digit_def group_int_def digits_val_def strip_def strip_with_def isspace_def
  valid_date_def valid_time_def days_in_month_def isleap_def Let_def

subsection \<open>The texts of a date\<close>

lemma below_ten: "k < 10 \<Longrightarrow> k \<in> {0, 1, 2, 3, 4, 5, 6, 7, 8, 9::nat}"
  by auto

lemma digit_char_props:
  assumes "k < 10"
  shows "digit (digit_char k)" and "of_char (digit_char k) - 48 = k"
    and "\<not> isspace (digit_char k)"
  using below_ten [OF assms]
  by (auto simp: digit_char_def digit_def isspace_def)

lemma days_list: "[1 ..< 32] = [1, 2, 3, 4, 5, 6, 7, 8, 9, 10, 11, 12, 13, 14, 15, 16, 17, 18, 19,
    20, 21, 22, 23, 24, 25, 26, 27, 28, 29, 30, 31::nat]"
  by (simp add: upt_conv_Cons)

lemma months_list: "[1 ..< 13] = [1, 2, 3, 4, 5, 6, 7, 8, 9, 10, 11, 12::nat]"
  by (simp add: upt_conv_Cons)

lemmas match_eval_defs =
  day_texts_def month_texts_def pad2_def digit_char_def two_def one_def is_char_def
  between_def digit_def digits_val_def strip_def strip_with_def isspace_def

lemma day_match_all:
  "\<forall>d \<in> set [1 ..< 32]. \<forall>t \<in> set (day_texts d).
     rmatch [Dir_d, Lit CHR ''/''] (t @ CHR ''/'' # r) =
           [([(Dir_d, t), (Lit CHR ''/'', ''/'')], r)] \<and>
     digits_val (strip t) = d"
  unfolding days_list by (simp add: match_eval_defs)

lemma month_match_all:
  "\<forall>m \<in> set [1 ..< 13]. \<forall>t \<in> set (month_texts m).
     rmatch [Dir_m, Lit CHR ''/''] (t @ CHR ''/'' # r) =
           [([(Dir_m, t), (Lit CHR ''/'', ''/'')], r)] \<and>
     digits_val (strip t) = m"
  unfolding months_list by (simp add: match_eval_defs)

lemma day_match:
  assumes "1 \<le> d" and "d \<le> 31" and "t \<in> set (day_texts d)"
  shows "rmatch [Dir_d, Lit CHR ''/''] (t @ CHR ''/'' # r) =
           [([(Dir_d, t), (Lit CHR ''/'', ''/'')], r)]"
    and "digits_val (strip t) = d"
proof -
  from assms(1,2) have "d \<in> set [1 ..< 32]" by simp
  with day_match_all [of r] assms(3)
  have "rmatch [Dir_d, Lit CHR ''/''] (t @ CHR ''/'' # r) =
           [([(Dir_d, t), (Lit CHR ''/'', ''/'')], r)] \<and>
        digits_val (strip t) = d"
    by blast
  then show "rmatch [Dir_d, Lit CHR ''/''] (t @ CHR ''/'' # r) =
           [([(Dir_d, t), (Lit CHR ''/'', ''/'')], r)]"
    and "digits_val (strip t) = d"
    by (rule conjunct1, rule conjunct2)
qed

lemma month_match:
  assumes "1 \<le> m" and "m \<le> 12" and "t \<in> set (month_texts m)"
  shows "rmatch [Dir_m, Lit CHR ''/''] (t @ CHR ''/'' # r) =
           [([(Dir_m, t), (Lit CHR ''/'', ''/'')], r)]"
    and "digits_val (strip t) = m"
proof -
  from assms(1,2) have "m \<in> set [1 ..< 13]" by simp
  with month_match_all [of r] assms(3)
  have "rmatch [Dir_m, Lit CHR ''/''] (t @ CHR ''/'' # r) =
           [([(Dir_m, t), (Lit CHR ''/'', ''/'')], r)] \<and>
        digits_val (strip t) = m"
    by blast
  then show "rmatch [Dir_m, Lit CHR ''/''] (t @ CHR ''/'' # r) =
           [([(Dir_m, t), (Lit CHR ''/'', ''/'')], r)]"
    and "digits_val (strip t) = m"
    by (rule conjunct1, rule conjunct2)
qed

lemma four_digits:
  fixes y :: nat
  shows "1000 * (y div 1000) + 100 * (y div 100 mod 10) + 10 * (y div 10 mod 10) + y mod 10 = y"
proof -
  define q1 q2 q3 r0 r1 r2 where "q1 = y div 10" and "q2 = q1 div 10" and "q3 = q2 div 10"
    and "r0 = y mod 10" and "r1 = q1 mod 10" and "r2 = q2 mod 10"
  have e0: "y = 10 * q1 + r0" unfolding q1_def r0_def by (rule mult_div_mod_eq [symmetric])
  have e1: "q1 = 10 * q2 + r1" unfolding q2_def r1_def by (rule mult_div_mod_eq [symmetric])
  have e2: "q2 = 10 * q3 + r2" unfolding q3_def r2_def by (rule mult_div_mod_eq [symmetric])
  have h: "y div 100 = q2" unfolding q2_def q1_def
    by (simp only: div_mult2_eq [symmetric]) simp
  have t: "y div 1000 = q3" unfolding q3_def q2_def q1_def
    by (simp only: div_mult2_eq [symmetric]) simp
  have "1000 * q3 + 100 * r2 + 10 * r1 + r0 = y"
    using e0 e1 e2 by linarith
  then show ?thesis
    unfolding h t q1_def [symmetric] r2_def [symmetric] r1_def [symmetric] r0_def [symmetric] .
qed

lemma year_match:
  assumes "y \<le> 9999"
  shows "rmatch [Dir_Y] (pad4 y) = [([(Dir_Y, pad4 y)], [])]"
    and "digits_val (strip (pad4 y)) = y"
proof -
  have "y < 10 * 1000" using assms by simp
  then have a: "y div 1000 < 10" by (simp only: less_mult_imp_div_less)
  have b: "y div 100 mod 10 < 10" and c: "y div 10 mod 10 < 10" and d: "y mod 10 < 10"
    by (rule mod_less_divisor, simp)+
  show "rmatch [Dir_Y] (pad4 y) = [([(Dir_Y, pad4 y)], [])]"
    by (simp add: pad4_def digit_char_props(1) [OF a] digit_char_props(1) [OF b]
        digit_char_props(1) [OF c] digit_char_props(1) [OF d])
  have s: "strip (pad4 y) = pad4 y"
    by (simp add: strip_def strip_with_def pad4_def digit_char_props(3) [OF a]
        digit_char_props(3) [OF d])
  have "digits_val (pad4 y) =
      1000 * (y div 1000) + 100 * (y div 100 mod 10) + 10 * (y div 10 mod 10) + y mod 10"
    by (simp add: digits_val_def pad4_def digit_char_props(2) [OF a] digit_char_props(2) [OF b]
        digit_char_props(2) [OF c] digit_char_props(2) [OF d])
  also have "\<dots> = y" by (rule four_digits)
  finally show "digits_val (strip (pad4 y)) = y" unfolding s .
qed

lemma strptime_date_texts:
  assumes v: "valid_date y m d" and s: "s \<in> set (date_texts y m d)"
  shows "strptime s fmt_date =
           Inr \<lparr>year = y, month = m, day = d, hour = 0, minute = 0, second = 0\<rparr>"
proof -
  from s obtain dtx mtx where dt: "dtx \<in> set (day_texts d)" and mt: "mtx \<in> set (month_texts m)"
    and s': "s = dtx @ CHR ''/'' # mtx @ CHR ''/'' # pad4 y"
    by (auto simp: date_texts_def)
  from v have b: "1 \<le> d" "d \<le> 31" "1 \<le> m" "m \<le> 12" "y \<le> 9999"
    by (auto simp: valid_date_def days_in_month_def split: if_splits)
  note dm = day_match [OF b(1,2) dt]
  note mm = month_match [OF b(3,4) mt]
  note ym = year_match [OF b(5)]
  have f: "fmt_date = [Dir_d, Lit CHR ''/''] @ [Dir_m, Lit CHR ''/''] @ [Dir_Y]"
    by (simp add: fmt_date_def)
  have f2: "[Dir_m, Lit CHR ''/'', Dir_Y] = [Dir_m, Lit CHR ''/''] @ [Dir_Y]"
    by simp
  have r23: "rmatch [Dir_m, Lit CHR ''/'', Dir_Y] (mtx @ CHR ''/'' # pad4 y) =
      [([(Dir_m, mtx), (Lit CHR ''/'', ''/''), (Dir_Y, pad4 y)], [])]"
    unfolding f2
    by (simp only: rmatch_append mm(1)) (simp add: ym(1) del: rmatch.simps)
  have r: "rmatch fmt_date s =
      [([(Dir_d, dtx), (Lit CHR ''/'', ''/''), (Dir_m, mtx), (Lit CHR ''/'', ''/''),
         (Dir_Y, pad4 y)], [])]"
    unfolding f s'
    by (simp only: rmatch_append [of "[Dir_d, Lit CHR ''/'']"] dm(1))
       (simp add: r23 del: rmatch.simps)
  show ?thesis
    by (simp add: strptime_def r group_int_def Let_def dm(2) mm(2) ym(2) v valid_time_def)
qed

subsection \<open>The merged timestamp\<close>

text \<open>
  Claim C8. For every row, a time cell that is not a string gives the same result as the
  time string \<^verbatim>\<open>"00:00:00"\<close>. When the date string is well formed, that is when
  \<^verbatim>\<open>strptime\<close> reads it with the format \<^verbatim>\<open>'%d/%m/%Y'\<close>, both are the timestamp of that
  date at midnight; and the date is the one the string writes: for every date \<open>y\<close>, \<open>m\<close>,
  \<open>n\<close> of the calendar and every text of it in the form day/month/year, both merges are
  the timestamp of year \<open>y\<close>, month \<open>m\<close> and day \<open>n\<close> at 00:00:00.
\<close>

theorem merge_absent_time:
  assumes "\<not> is_str hora"
  shows "ocorrencia_data_of dia hora = ocorrencia_data_of dia (CStr ''00:00:00'') \<and>
         (strptime d fmt_date = Inr dt \<longrightarrow>
            ocorrencia_data_of (CStr d) hora = Inr dt \<and>
            hour dt = 0 \<and> minute dt = 0 \<and> second dt = 0) \<and>
         (valid_date y m n \<longrightarrow>
            (\<forall>s \<in> set (date_texts y m n).
               ocorrencia_data_of (CStr s) hora =
                 Inr \<lparr>year = y, month = m, day = n, hour = 0, minute = 0, second = 0\<rparr> \<and>
               ocorrencia_data_of (CStr s) (CStr ''00:00:00'') =
                 Inr \<lparr>year = y, month = m, day = n, hour = 0, minute = 0, second = 0\<rparr>))"
proof -
  have same: "ocorrencia_data_of dia' hora = ocorrencia_data_of dia' (CStr ''00:00:00'')" for dia'
    using assms by (cases dia'; cases hora) (simp_all add: ocorrencia_data_of_def is_str_def)
  have midnight: "strptime ''00:00:00'' fmt_time =
      Inr \<lparr>year = 1900, month = 1, day = 1, hour = 0, minute = 0, second = 0\<rparr>"
    by (simp add: strptime_eval_defs)
  have sp: "dropWhile isspace ''00:00:00'' = ''00:00:00''"
    by (simp add: isspace_def)
  have read: "ocorrencia_data_of (CStr d') hora = Inr dt' \<and>
      hour dt' = 0 \<and> minute dt' = 0 \<and> second dt' = 0"
    if ok: "strptime d' fmt_date = Inr dt'" for d' dt'
  proof -
    from ok obtain g where "dt' = \<lparr>year = group_int 1900 Dir_Y g, month = group_int 1 Dir_m g,
               day = group_int 1 Dir_d g, hour = 0, minute = 0, second = 0\<rparr>"
      by (rule strptime_date_Inr)
    then have z: "hour dt' = 0" "minute dt' = 0" "second dt' = 0" by simp_all
    have "ocorrencia_data_of (CStr d') hora = strptime (d' @ CHR '' '' # ''00:00:00'') fmt_date_time"
      using assms by (cases hora) (simp_all add: ocorrencia_data_of_def is_str_def)
    also have "\<dots> = Inr (dt'\<lparr>hour := 0, minute := 0, second := 0\<rparr>)"
      using strptime_date_time [OF ok, of "''00:00:00''"] by (simp only: sp midnight) simp
    also have "dt'\<lparr>hour := 0, minute := 0, second := 0\<rparr> = dt'" using z by simp
    finally show ?thesis using z by simp
  qed
  have texts: "ocorrencia_data_of (CStr s) hora =
                 Inr \<lparr>year = y, month = m, day = n, hour = 0, minute = 0, second = 0\<rparr> \<and>
               ocorrencia_data_of (CStr s) (CStr ''00:00:00'') =
                 Inr \<lparr>year = y, month = m, day = n, hour = 0, minute = 0, second = 0\<rparr>"
    if "valid_date y m n" and "s \<in> set (date_texts y m n)" for s
  proof -
    from that have "strptime s fmt_date =
        Inr \<lparr>year = y, month = m, day = n, hour = 0, minute = 0, second = 0\<rparr>"
      by (rule strptime_date_texts)
    then have "ocorrencia_data_of (CStr s) hora =
        Inr \<lparr>year = y, month = m, day = n, hour = 0, minute = 0, second = 0\<rparr>"
      using read by blast
    then show ?thesis using same [of "CStr s"] by simp
  qed
  show ?thesis
  proof (intro conjI impI ballI)
    show "ocorrencia_data_of dia hora = ocorrencia_data_of dia (CStr ''00:00:00'')"
      by (rule same)
  next
    assume ok: "strptime d fmt_date = Inr dt"
    from read [OF ok] show "ocorrencia_data_of (CStr d) hora = Inr dt" by (rule conjunct1)
    from read [OF ok] show "hour dt = 0" by simp
    from read [OF ok] show "minute dt = 0" by simp
    from read [OF ok] show "second dt = 0" by simp
  next
    fix s assume a: "valid_date y m n" "s \<in> set (date_texts y m n)"
    from texts [OF a] show "ocorrencia_data_of (CStr s) hora =
        Inr \<lparr>year = y, month = m, day = n, hour = 0, minute = 0, second = 0\<rparr>"
      by (rule conjunct1)
    from texts [OF a] show "ocorrencia_data_of (CStr s) (CStr ''00:00:00'') =
        Inr \<lparr>year = y, month = m, day = n, hour = 0, minute = 0, second = 0\<rparr>"
      by (rule conjunct2)
  qed
qed

theorem merge_absent_time_witness:
  "\<not> is_str (CFloat NaN) \<and>
   strptime ''07/03/2020'' fmt_date =
     Inr \<lparr>year = 2020, month = 3, day = 7, hour = 0, minute = 0, second = 0\<rparr> \<and>
   ocorrencia_data_of (CStr ''07/03/2020'') (CFloat NaN) =
     Inr \<lparr>year = 2020, month = 3, day = 7, hour = 0, minute = 0, second = 0\<rparr> \<and>
   ocorrencia_data_of (CStr ''07/03/2020'') (CStr ''00:00:00'') =
     Inr \<lparr>year = 2020, month = 3, day = 7, hour = 0, minute = 0, second = 0\<rparr> \<and>
   valid_date 1999 12 31 \<and> ''31/12/1999'' \<in> set (date_texts 1999 12 31) \<and>
   ocorrencia_data_of (CStr ''31/12/1999'') (CFloat NaN) =
     Inr \<lparr>year = 1999, month = 12, day = 31, hour = 0, minute = 0, second = 0\<rparr>"
proof -
  have h: "\<not> is_str (CFloat NaN)" by (simp add: is_str_def)
  have d: "strptime ''07/03/2020'' fmt_date =
     Inr \<lparr>year = 2020, month = 3, day = 7, hour = 0, minute = 0, second = 0\<rparr>"
    by (simp add: strptime_eval_defs)
  have v: "valid_date 1999 12 31"
    by (simp add: valid_date_def days_in_month_def)
  have t: "''31/12/1999'' \<in> set (date_texts 1999 12 31)"
    by (simp add: date_texts_def day_texts_def month_texts_def pad2_def pad4_def digit_char_def)
  let ?dt = "\<lparr>year = 2020, month = 3, day = 7, hour = 0, minute = 0, second = 0\<rparr>"
  note m = merge_absent_time [OF h, of "CStr ''07/03/2020''" "''07/03/2020''" ?dt 1999 12 31]
  from m have same: "ocorrencia_data_of (CStr ''07/03/2020'') (CFloat NaN) =
      ocorrencia_data_of (CStr ''07/03/2020'') (CStr ''00:00:00'')"
    by (rule conjunct1)
  note m2 = m [THEN conjunct2]
  from m2 have "strptime ''07/03/2020'' fmt_date = Inr ?dt \<longrightarrow>
      ocorrencia_data_of (CStr ''07/03/2020'') (CFloat NaN) = Inr ?dt \<and>
      hour ?dt = 0 \<and> minute ?dt = 0 \<and> second ?dt = 0"
    by (rule conjunct1)
  from this d have "ocorrencia_data_of (CStr ''07/03/2020'') (CFloat NaN) = Inr ?dt \<and>
      hour ?dt = 0 \<and> minute ?dt = 0 \<and> second ?dt = 0"
    by (rule mp)
  then have a: "ocorrencia_data_of (CStr ''07/03/2020'') (CFloat NaN) = Inr ?dt"
    by (rule conjunct1)
  from same a have b: "ocorrencia_data_of (CStr ''07/03/2020'') (CStr ''00:00:00'') = Inr ?dt"
    by (rule subst)
  note m3 = m2 [THEN conjunct2, THEN mp, OF v, THEN bspec, OF t, THEN conjunct1]
  from h d a b v t m3 show ?thesis by (intro conjI)
qed

text \<open>
  Claim C10, as the code has it. For a row with a well formed date and a time cell that is
  a string, the blanks at the start of the time string belong to the whitespace between
  date and time. When the rest of the string is not read by \<^verbatim>\<open>strptime\<close> with the format
  \<^verbatim>\<open>'%H:%M:%S'\<close>, the merge raises \<^verbatim>\<open>ValueError\<close>: midnight is never put in the place
  of a string. When it is read, the merge is the date with that time.
\<close>

theorem merge_string_time:
  assumes "strptime dia fmt_date = Inr dt"
  shows "(strptime (dropWhile isspace hora) fmt_time = Inl e \<longrightarrow>
            ocorrencia_data_of (CStr dia) (CStr hora) = Inl ValueError) \<and>
         (strptime (dropWhile isspace hora) fmt_time = Inr tm \<longrightarrow>
            ocorrencia_data_of (CStr dia) (CStr hora) =
              Inr (dt\<lparr>hour := hour tm, minute := minute tm, second := second tm\<rparr>))"
  using strptime_date_time [OF assms, of hora]
  by (auto simp: ocorrencia_data_of_def)

theorem merge_string_time_witness:
  "strptime ''07/03/2020'' fmt_date =
     Inr \<lparr>year = 2020, month = 3, day = 7, hour = 0, minute = 0, second = 0\<rparr> \<and>
   strptime (dropWhile isspace ''25:00'') fmt_time = Inl ValueError \<and>
   ocorrencia_data_of (CStr ''07/03/2020'') (CStr ''25:00'') = Inl ValueError"
proof -
  have d: "strptime ''07/03/2020'' fmt_date =
     Inr \<lparr>year = 2020, month = 3, day = 7, hour = 0, minute = 0, second = 0\<rparr>"
    by (simp add: strptime_eval_defs)
  have t: "strptime (dropWhile isspace ''25:00'') fmt_time = Inl ValueError"
    by (simp add: strptime_eval_defs)
  from merge_string_time [OF d, of "''25:00''" ValueError] d t show ?thesis by simp
qed

text \<open>
  Claim C10 as the specification states it, refuted: the time string \<^verbatim>\<open>" 10:30:00"\<close>,
  with a blank in front, does not match the format \<^verbatim>\<open>'%H:%M:%S'\<close>, and the merge with it
  does not raise: it is the timestamp at 10:30:00.
\<close>

theorem merge_leading_blank_counterexample:
  "strptime '' 10:30:00'' fmt_time = Inl ValueError \<and>
   ocorrencia_data_of (CStr ''07/03/2020'') (CStr '' 10:30:00'') =
     Inr \<lparr>year = 2020, month = 3, day = 7, hour = 10, minute = 30, second = 0\<rparr>"
  by (simp add: ocorrencia_data_of_def is_str_def strptime_eval_defs)

end
